theory Spec2Isabelle
  imports Complex_Main
begin

section \<open>Data model (app/db/models.py)\<close>

text \<open>
  Each SQLModel table class is a record; a row read from the store always carries its
  primary key, so the key is an \<open>int\<close> here (Python's \<open>Optional[int]\<close> is \<open>None\<close> only
  before the insert). Field names carry the class name, because \<open>id\<close>, \<open>public_id\<close>
  and \<open>is_active\<close> occur in several classes.

  The coordinates of a scan are Python floats that the application only carries from
  the request to the store. Their type is the parameter \<open>'c\<close>: nothing in the handlers
  can inspect a value of that type. \<open>scanned_at\<close> is a clock reading, an integer here.
\<close>

type_synonym datetime = int

record user =
  User_id :: int
  User_login :: string
  User_is_active :: bool
  User_is_superuser :: bool
  User_password_hash :: string

record region =
  Region_id :: int
  Region_name :: string
  Region_code :: string
  Region_public_id :: string
  Region_is_active :: bool

record pharmacy =
  Pharmacy_id :: int
  Pharmacy_name :: string
  Pharmacy_address :: "string option"
  Pharmacy_public_id :: string
  Pharmacy_is_active :: bool
  Pharmacy_region_id :: "int option"

record 'c scan_event =
  ScanEvent_id :: int
  ScanEvent_scanned_at :: datetime
  ScanEvent_pharmacy_id :: int
  ScanEvent_region_id :: "int option"
  ScanEvent_latitude :: "'c option"
  ScanEvent_longitude :: "'c option"
  ScanEvent_raw_qr :: "string option"
  ScanEvent_user_agent :: "string option"
  ScanEvent_ip_address :: "string option"

text \<open>
  The data store: one list of rows per table, in the order in which the database
  returns them (\<open>.first()\<close> takes the first row that matches).
\<close>

record 'c database =
  users :: "user list"
  regions :: "region list"
  pharmacies :: "pharmacy list"
  scan_events :: "'c scan_event list"

text \<open>\<open>primary_key=True\<close> on every \<open>id\<close> field: no two rows of a table share an id.\<close>

definition primary_keys :: "'c database \<Rightarrow> bool" where
  "primary_keys db =
     (distinct (map User_id (users db)) \<and>
      distinct (map Region_id (regions db)) \<and>
      distinct (map Pharmacy_id (pharmacies db)) \<and>
      distinct (map ScanEvent_id (scan_events db)))"

text \<open>
  Two more facts about stored rows. \<open>public_id\<close> is produced by \<open>generate_public_id\<close>,
  that is \<open>secrets.token_urlsafe(8)\<close>, a text of eleven characters: no stored public id
  is empty. Keys are assigned by the database, which counts from 1 (as \<open>next_id\<close> below
  does): no row has the key 0.
\<close>

definition generated_public_ids :: "'c database \<Rightarrow> bool" where
  "generated_public_ids db =
     ((\<forall>p \<in> set (pharmacies db). Pharmacy_public_id p \<noteq> []) \<and>
      (\<forall>r \<in> set (regions db). Region_public_id r \<noteq> []))"

definition assigned_keys :: "'c database \<Rightarrow> bool" where
  "assigned_keys db =
     ((\<forall>u \<in> set (users db). User_id u \<noteq> 0) \<and>
      (\<forall>r \<in> set (regions db). Region_id r \<noteq> 0) \<and>
      (\<forall>p \<in> set (pharmacies db). Pharmacy_id p \<noteq> 0) \<and>
      (\<forall>s \<in> set (scan_events db). ScanEvent_id s \<noteq> 0))"

text \<open>
  The statements that \<open>api_scan\<close> and \<open>admin_login\<close> send to the store, in the order of
  the source: \<open>session.exec(select(T).where(...)).first()\<close>, \<open>session.get(Region, id)\<close>
  and \<open>session.add\<close> with \<open>commit\<close> and \<open>refresh\<close>.
\<close>

datatype db_call =
    SelectPharmacy string
  | SelectUser string
  | GetRegion int
  | InsertScanEvent

text \<open>\<open>session.get(Region, id)\<close> and \<open>session.get(User, id)\<close>: the row with that key, or \<open>None\<close>.\<close>

definition session_get_Region :: "'c database \<Rightarrow> int \<Rightarrow> region option" where
  "session_get_Region db i = find (\<lambda>r. Region_id r = i) (regions db)"

definition session_get_User :: "'c database \<Rightarrow> int \<Rightarrow> user option" where
  "session_get_User db i = find (\<lambda>u. User_id u = i) (users db)"

text \<open>
  The key the store gives to an inserted scan event (\<open>id\<close> is \<open>None\<close> at \<open>session.add\<close>
  and set after \<open>commit\<close> and \<open>refresh\<close>): one more than the largest key in the table,
  starting at 1.
\<close>

definition next_id :: "int list \<Rightarrow> int" where
  "next_id ids = fold max ids 0 + 1"

section \<open>Requests and responses\<close>

text \<open>
  The JSON object of a scan request, as the docstring of \<open>api_scan\<close> describes it, read
  with \<open>data.get\<close>: a key that is absent or \<open>null\<close> is \<open>None\<close>.
\<close>

record 'c scan_payload =
  pharmacy_public_id :: "string option"
  latitude :: "'c option"
  longitude :: "'c option"
  raw_qr :: "string option"

record address =
  host :: string
  port :: nat

text \<open>
  \<open>headers\<close> are the request headers with lower-case names, as the server passes them;
  \<open>client\<close> is \<open>request.client\<close>, which may be \<open>None\<close>.
\<close>

record 'c scan_request =
  body :: "'c scan_payload"
  client :: "address option"
  headers :: "(string \<times> string) list"

datatype json_value = JBool bool | JInt int | JStr string

text \<open>
  \<open>JSONResponse content status\<close>; \<open>TemplateResponse name error status\<close>, where \<open>error\<close> is
  the value of the template's \<open>error\<close> variable; \<open>RedirectResponse url status\<close>.
\<close>

datatype response =
    JSONResponse "(string \<times> json_value) list" nat
  | TemplateResponse string "string option" nat
  | RedirectResponse string nat

datatype http_exception = HTTPException nat

text \<open>\<open>request.session\<close>: the dictionary of the signed cookie.\<close>

type_synonym session = "string \<rightharpoonup> int"

section \<open>Public routes (app/api/public.py)\<close>

definition show_scanner :: response where
  "show_scanner = TemplateResponse ''scan.html'' None 200"

text \<open>
  \<open>api_scan\<close> returns the response, the store after the request and the statements it
  sent. \<open>not pharmacy_public_id\<close> holds for \<open>None\<close> and for the empty string;
  \<open>if pharmacy.region_id\<close> fails for \<open>None\<close> and for 0.
\<close>

definition api_scan ::
  "'c database \<Rightarrow> datetime \<Rightarrow> 'c scan_request \<Rightarrow> response \<times> 'c database \<times> db_call list" where
  "api_scan db utcnow request =
     (let data = body request in
      case pharmacy_public_id data of
        None \<Rightarrow>
          (JSONResponse [(''ok'', JBool False), (''error'', JStr ''Missing pharmacy_public_id'')] 400,
           db, [])
      | Some public_id \<Rightarrow>
          if public_id = [] then
            (JSONResponse [(''ok'', JBool False), (''error'', JStr ''Missing pharmacy_public_id'')] 400,
             db, [])
          else
            (case find (\<lambda>p. Pharmacy_public_id p = public_id) (pharmacies db) of
               None \<Rightarrow>
                 (JSONResponse [(''ok'', JBool False), (''error'', JStr ''Unknown pharmacy'')] 400,
                  db, [SelectPharmacy public_id])
             | Some pharmacy \<Rightarrow>
                 let region =
                       (case Pharmacy_region_id pharmacy of
                          None \<Rightarrow> None
                        | Some rid \<Rightarrow> if rid = 0 then None else session_get_Region db rid);
                     region_calls =
                       (case Pharmacy_region_id pharmacy of
                          None \<Rightarrow> []
                        | Some rid \<Rightarrow> if rid = 0 then [] else [GetRegion rid]);
                     ip_address = map_option host (client request);
                     user_agent = map_of (headers request) ''user-agent'';
                     scan =
                       \<lparr> ScanEvent_id = next_id (map ScanEvent_id (scan_events db)),
                         ScanEvent_scanned_at = utcnow,
                         ScanEvent_pharmacy_id = Pharmacy_id pharmacy,
                         ScanEvent_region_id = map_option Region_id region,
                         ScanEvent_latitude = latitude data,
                         ScanEvent_longitude = longitude data,
                         ScanEvent_raw_qr = raw_qr data,
                         ScanEvent_user_agent = user_agent,
                         ScanEvent_ip_address = ip_address \<rparr>
                 in (JSONResponse [(''ok'', JBool True), (''scan_id'', JInt (ScanEvent_id scan))] 200,
                     db\<lparr>scan_events := scan_events db @ [scan]\<rparr>,
                     [SelectPharmacy public_id] @ region_calls @ [InsertScanEvent])))"

section \<open>Admin authentication (app/api/admin_auth.py, app/core/deps.py)\<close>

text \<open>
  \<open>verify_password\<close> calls passlib's \<open>pwd_context.verify\<close>, which is not part of the
  repository: it is the parameter \<open>pwd_context_verify\<close>.
\<close>

definition verify_password :: "(string \<Rightarrow> string \<Rightarrow> bool) \<Rightarrow> string \<Rightarrow> string \<Rightarrow> bool" where
  "verify_password pwd_context_verify password password_hash =
     pwd_context_verify password password_hash"

definition admin_login_form :: response where
  "admin_login_form = TemplateResponse ''admin_login.html'' None 200"

text \<open>
  \<open>admin_login\<close> returns the response, the session after the request and the statements
  it sent; it only reads the store. The three tests are evaluated in the order of the
  source's \<open>or\<close>.
\<close>

definition admin_login ::
  "(string \<Rightarrow> string \<Rightarrow> bool) \<Rightarrow> 'c database \<Rightarrow> session \<Rightarrow> string \<Rightarrow> string
     \<Rightarrow> response \<times> session \<times> db_call list" where
  "admin_login pwd_context_verify db sess login password =
     (case find (\<lambda>u. User_login u = login) (users db) of
        None \<Rightarrow>
          (TemplateResponse ''admin_login.html'' (Some ''Invalid credentials'') 400,
           sess, [SelectUser login])
      | Some user \<Rightarrow>
          if \<not> verify_password pwd_context_verify password (User_password_hash user)
             \<or> \<not> User_is_superuser user
          then (TemplateResponse ''admin_login.html'' (Some ''Invalid credentials'') 400,
                sess, [SelectUser login])
          else (RedirectResponse ''/admin'' 303,
                sess(''user_id'' \<mapsto> User_id user), [SelectUser login]))"

definition admin_logout :: "session \<Rightarrow> response \<times> session" where
  "admin_logout sess = (RedirectResponse ''/admin/login'' 303, Map.empty)"

text \<open>
  \<open>get_current_admin\<close>: \<open>not user_id\<close> holds for \<open>None\<close> and for 0; every failure raises
  \<open>HTTPException(401)\<close>.
\<close>

definition get_current_admin :: "'c database \<Rightarrow> session \<Rightarrow> http_exception + user" where
  "get_current_admin db sess =
     (case sess ''user_id'' of
        None \<Rightarrow> Inl (HTTPException 401)
      | Some uid \<Rightarrow>
          if uid = 0 then Inl (HTTPException 401)
          else
            (case session_get_User db uid of
               None \<Rightarrow> Inl (HTTPException 401)
             | Some user \<Rightarrow>
                 if \<not> User_is_active user \<or> \<not> User_is_superuser user
                 then Inl (HTTPException 401)
                 else Inr user))"

section \<open>The routes of the application (app/main.py)\<close>

datatype 'c http_request =
    GET_root
  | POST_api_scan "'c scan_request"
  | GET_admin_login
  | POST_admin_login string string
  | GET_admin_logout

text \<open>
  One request against the store and the caller's session. \<open>admin_login\<close> has the store's
  session but neither adds nor commits; \<open>admin_logout\<close> and the two form pages have no
  access to the store.
\<close>

fun route ::
  "(string \<Rightarrow> string \<Rightarrow> bool) \<Rightarrow> datetime \<Rightarrow> 'c http_request \<Rightarrow> 'c database \<times> session
     \<Rightarrow> response \<times> 'c database \<times> session" where
  "route v utcnow GET_root (db, sess) = (show_scanner, db, sess)"
| "route v utcnow (POST_api_scan request) (db, sess) =
     (case api_scan db utcnow request of (resp, db', calls) \<Rightarrow> (resp, db', sess))"
| "route v utcnow GET_admin_login (db, sess) = (admin_login_form, db, sess)"
| "route v utcnow (POST_admin_login login password) (db, sess) =
     (case admin_login v db sess login password of (resp, sess', calls) \<Rightarrow> (resp, db, sess'))"
| "route v utcnow GET_admin_logout (db, sess) =
     (case admin_logout sess of (resp, sess') \<Rightarrow> (resp, db, sess'))"

section \<open>Stores that differ only in their \<open>is_active\<close> flags\<close>

text \<open>
  \<open>with_is_active f g db\<close> is the store \<open>db\<close> with the \<open>is_active\<close> flag of every pharmacy
  \<open>p\<close> set to \<open>f p\<close> and of every region \<open>r\<close> set to \<open>g r\<close>; nothing else changes.
\<close>

definition with_is_active ::
  "(pharmacy \<Rightarrow> bool) \<Rightarrow> (region \<Rightarrow> bool) \<Rightarrow> 'c database \<Rightarrow> 'c database" where
  "with_is_active f g db =
     db\<lparr>regions := map (\<lambda>r. r\<lparr>Region_is_active := g r\<rparr>) (regions db),
        pharmacies := map (\<lambda>p. p\<lparr>Pharmacy_is_active := f p\<rparr>) (pharmacies db)\<rparr>"

section \<open>An example store\<close>

text \<open>
  The scenario of the specification: pharmacy \<open>abc123\<close> belongs to region \<open>R1\<close>, and a scan
  arrives with latitude 53.55, longitude 10.0 and the text \<open>QR-TEXT\<close>. Coordinates are
  real numbers in the examples. The example password check accepts the password whose
  hash is the text \<open>hash-of-\<close> followed by the password.
\<close>

definition example_region :: region where
  "example_region =
     \<lparr> Region_id = 1, Region_name = ''NRW West'', Region_code = ''R1'',
       Region_public_id = ''Zk3vR1tq9aE'', Region_is_active = True \<rparr>"

definition example_pharmacy :: pharmacy where
  "example_pharmacy =
     \<lparr> Pharmacy_id = 7, Pharmacy_name = ''Linden Apotheke'', Pharmacy_address = None,
       Pharmacy_public_id = ''abc123'', Pharmacy_is_active = True,
       Pharmacy_region_id = Some 1 \<rparr>"

definition example_admin :: user where
  "example_admin =
     \<lparr> User_id = 3, User_login = ''admin'', User_is_active = True,
       User_is_superuser = True, User_password_hash = ''hash-of-secret'' \<rparr>"

definition example_db :: "real database" where
  "example_db =
     \<lparr> users = [example_admin], regions = [example_region],
       pharmacies = [example_pharmacy], scan_events = [] \<rparr>"

definition example_request :: "real scan_request" where
  "example_request =
     \<lparr> body = \<lparr> pharmacy_public_id = Some ''abc123'', latitude = Some 53.55,
                longitude = Some 10.0, raw_qr = Some ''QR-TEXT'' \<rparr>,
       client = Some \<lparr> host = ''203.0.113.9'', port = 50512 \<rparr>,
       headers = [(''host'', ''scan.example''), (''user-agent'', ''Mozilla/5.0'')] \<rparr>"

definition example_verify :: "string \<Rightarrow> string \<Rightarrow> bool" where
  "example_verify password password_hash = (password_hash = ''hash-of-'' @ password)"

text \<open>A pharmacy whose public id is the empty string, and a request that sends it.\<close>

definition blank_pharmacy :: pharmacy where
  "blank_pharmacy = example_pharmacy\<lparr>Pharmacy_public_id := []\<rparr>"

definition blank_db :: "real database" where
  "blank_db = example_db\<lparr>pharmacies := [blank_pharmacy]\<rparr>"

definition blank_request :: "real scan_request" where
  "blank_request =
     example_request\<lparr>body := body example_request\<lparr>pharmacy_public_id := Some []\<rparr>\<rparr>"

text \<open>A request for a public id that no pharmacy of the example store has.\<close>

definition stray_request :: "real scan_request" where
  "stray_request =
     example_request\<lparr>body := body example_request\<lparr>pharmacy_public_id := Some ''zzz999''\<rparr>\<rparr>"

text \<open>
  Pharmacies whose region is absent: one refers to region 42, which is not in the store,
  one has no region reference.
\<close>

definition orphan_pharmacy :: pharmacy where
  "orphan_pharmacy = example_pharmacy\<lparr>Pharmacy_region_id := Some 42\<rparr>"

definition orphan_db :: "real database" where
  "orphan_db = example_db\<lparr>pharmacies := [orphan_pharmacy]\<rparr>"

definition unlinked_pharmacy :: pharmacy where
  "unlinked_pharmacy = example_pharmacy\<lparr>Pharmacy_region_id := None\<rparr>"

definition unlinked_db :: "real database" where
  "unlinked_db = example_db\<lparr>pharmacies := [unlinked_pharmacy]\<rparr>"

text \<open>
  Stores whose only user is the example administrator with one field changed: without
  the superuser flag, and inactive; and the store with no user at all.
\<close>

definition plain_user_db :: "real database" where
  "plain_user_db = example_db\<lparr>users := [example_admin\<lparr>User_is_superuser := False\<rparr>]\<rparr>"

definition inactive_admin :: user where
  "inactive_admin = example_admin\<lparr>User_is_active := False\<rparr>"

definition inactive_db :: "real database" where
  "inactive_db = example_db\<lparr>users := [inactive_admin]\<rparr>"

definition absent_user_db :: "real database" where
  "absent_user_db = example_db\<lparr>users := []\<rparr>"

text \<open>The scan event that the example request adds to the example store at time \<open>t\<close>.\<close>

definition example_scan :: "datetime \<Rightarrow> int option \<Rightarrow> real scan_event" where
  "example_scan t rid =
     \<lparr> ScanEvent_id = 1, ScanEvent_scanned_at = t,
       ScanEvent_pharmacy_id = 7, ScanEvent_region_id = rid,
       ScanEvent_latitude = Some 53.55, ScanEvent_longitude = Some 10.0,
       ScanEvent_raw_qr = Some ''QR-TEXT'',
       ScanEvent_user_agent = Some ''Mozilla/5.0'',
       ScanEvent_ip_address = Some ''203.0.113.9'' \<rparr>"

lemmas example_defs =
  example_region_def example_pharmacy_def example_admin_def example_db_def
  example_request_def example_verify_def example_scan_def

lemmas variant_defs =
  blank_pharmacy_def blank_db_def blank_request_def stray_request_def
  orphan_pharmacy_def orphan_db_def unlinked_pharmacy_def unlinked_db_def
  plain_user_db_def inactive_admin_def inactive_db_def absent_user_db_def

section \<open>Auxiliary facts\<close>

lemma fold_max_ge: "a \<le> fold max ids (a::int)"
  by (induction ids arbitrary: a) (auto intro: order_trans[OF max.cobounded2])

lemma fold_max_mem: "i \<in> set ids \<Longrightarrow> i \<le> fold max ids (a::int)"
proof (induction ids arbitrary: a)
  case Nil
  then show ?case by simp
next
  case (Cons x xs)
  show ?case
  proof (cases "i = x")
    case True
    have "x \<le> max x a" by simp
    also have "\<dots> \<le> fold max xs (max x a)" by (rule fold_max_ge)
    finally show ?thesis using True by simp
  next
    case False
    with Cons.prems have "i \<in> set xs" by simp
    then show ?thesis using Cons.IH by simp
  qed
qed

text \<open>The key of an inserted row is not a key of the table.\<close>

lemma next_id_fresh: "next_id ids \<notin> set ids"
proof
  assume "next_id ids \<in> set ids"
  then have "next_id ids \<le> fold max ids 0" by (rule fold_max_mem)
  then show False by (simp add: next_id_def)
qed

text \<open>Under the primary-key constraint, the lookup by key of a stored row finds that row.\<close>

lemma find_primary_key:
  "distinct (map f xs) \<Longrightarrow> x \<in> set xs \<Longrightarrow> find (\<lambda>y. f y = f x) xs = Some x"
  by (induction xs) (auto simp: image_iff)

lemma find_map_same:
  assumes "\<And>x. P (h x) = P x"
  shows "find P (map h xs) = map_option h (find P xs)"
  using assms by (induction xs) auto

text \<open>What \<open>find\<close> returns is a row of the list that passes the test.\<close>

lemma find_Some_mem: "find P xs = Some x \<Longrightarrow> x \<in> set xs \<and> P x"
  by (auto simp: find_Some_iff in_set_conv_nth)

text \<open>The database never assigns the key 0, and no lookup finds a user with it.\<close>

lemma next_id_pos: "0 < next_id ids"
  using fold_max_ge [of 0 ids] by (simp add: next_id_def)

lemma session_get_User_zero:
  assumes "assigned_keys db"
  shows "session_get_User db 0 = None"
proof (cases "session_get_User db 0")
  case None
  then show ?thesis .
next
  case (Some u)
  then have "u \<in> set (users db) \<and> User_id u = 0"
    unfolding session_get_User_def by (rule find_Some_mem)
  with assms show ?thesis by (auto simp: assigned_keys_def)
qed

text \<open>What \<open>api_scan\<close> leaves alone, whatever the request.\<close>

lemma api_scan_frame:
  assumes "api_scan db utcnow request = (resp, db', calls)"
  shows "users db' = users db \<and> regions db' = regions db \<and> pharmacies db' = pharmacies db \<and>
         (scan_events db' = scan_events db \<or>
          (\<exists>scan. scan_events db' = scan_events db @ [scan] \<and>
                  ScanEvent_id scan \<notin> set (map ScanEvent_id (scan_events db))))"
  using assms next_id_fresh [of "map ScanEvent_id (scan_events db)"]
  by (auto simp: api_scan_def Let_def split: option.splits if_splits)

lemma api_scan_primary_keys:
  assumes "primary_keys db"
  shows "primary_keys (fst (snd (api_scan db utcnow request)))"
proof -
  obtain resp db' calls where eq: "api_scan db utcnow request = (resp, db', calls)"
    by (cases "api_scan db utcnow request") auto
  from api_scan_frame [OF eq] assms have "primary_keys db'"
    by (auto simp: primary_keys_def)
  with eq show ?thesis by simp
qed

text \<open>A scan keeps both facts about stored rows.\<close>

lemma api_scan_store_invariants:
  assumes "generated_public_ids db" and "assigned_keys db"
  shows "generated_public_ids (fst (snd (api_scan db utcnow request))) \<and>
         assigned_keys (fst (snd (api_scan db utcnow request)))"
  using assms next_id_pos [of "map ScanEvent_id (scan_events db)"]
  by (auto simp: api_scan_def Let_def generated_public_ids_def assigned_keys_def
      split: option.splits)

text \<open>
  \<open>get_current_admin\<close> raises nothing but \<open>HTTPException(401)\<close>, and returns a user exactly
  when the session holds a non-zero id whose row is an active superuser.
\<close>

lemma get_current_admin_Inl:
  "get_current_admin db sess = Inl e \<Longrightarrow> e = HTTPException 401"
  by (auto simp: get_current_admin_def split: option.splits if_splits)

lemma get_current_admin_Inr_iff:
  "get_current_admin db sess = Inr user \<longleftrightarrow>
     (\<exists>uid. sess ''user_id'' = Some uid \<and> uid \<noteq> 0 \<and> session_get_User db uid = Some user
            \<and> User_is_active user \<and> User_is_superuser user)"
  by (auto simp: get_current_admin_def split: option.splits if_splits)

section \<open>Scan ingest\<close>

text \<open>
  C1. For every scan request whose \<open>pharmacy_public_id\<close> matches an existing pharmacy
  linked to an active region, and for arbitrary latitude, longitude and raw QR text,
  \<open>api_scan\<close> answers 200 with \<open>ok = true\<close> and the new event's id, and appends to the
  scan events one row that holds the pharmacy's id, that region's id, the submitted
  coordinates and raw QR text as they came, the \<open>user-agent\<close> header and the client's
  host. It sends the pharmacy lookup, the region lookup and the insert, in that order.
  The store is one whose public ids are generated and whose keys the database assigned.
\<close>

theorem api_scan_stores_scan_with_region:
  assumes "generated_public_ids db"
    and "assigned_keys db"
    and "pharmacy_public_id (body request) = Some public_id"
    and "find (\<lambda>p. Pharmacy_public_id p = public_id) (pharmacies db) = Some pharmacy"
    and "Pharmacy_region_id pharmacy = Some rid"
    and "session_get_Region db rid = Some region"
    and "Region_is_active region"
  shows "api_scan db utcnow request =
           (JSONResponse [(''ok'', JBool True),
                          (''scan_id'', JInt (next_id (map ScanEvent_id (scan_events db))))] 200,
            db\<lparr>scan_events := scan_events db @
               [\<lparr> ScanEvent_id = next_id (map ScanEvent_id (scan_events db)),
                  ScanEvent_scanned_at = utcnow,
                  ScanEvent_pharmacy_id = Pharmacy_id pharmacy,
                  ScanEvent_region_id = Some (Region_id region),
                  ScanEvent_latitude = latitude (body request),
                  ScanEvent_longitude = longitude (body request),
                  ScanEvent_raw_qr = raw_qr (body request),
                  ScanEvent_user_agent = map_of (headers request) ''user-agent'',
                  ScanEvent_ip_address = map_option host (client request) \<rparr>]\<rparr>,
            [SelectPharmacy public_id, GetRegion rid, InsertScanEvent])"
proof -
  from assms(4) have "pharmacy \<in> set (pharmacies db) \<and> Pharmacy_public_id pharmacy = public_id"
    by (rule find_Some_mem)
  with assms(1) have nonempty: "public_id \<noteq> []"
    by (auto simp: generated_public_ids_def)
  from assms(6) have "region \<in> set (regions db) \<and> Region_id region = rid"
    unfolding session_get_Region_def by (rule find_Some_mem)
  with assms(2) have nonzero: "rid \<noteq> 0"
    by (auto simp: assigned_keys_def)
  from assms(3-6) nonempty nonzero show ?thesis
    by (simp add: api_scan_def Let_def)
qed

text \<open>The scenario of the specification, as an instance of the theorem.\<close>

theorem api_scan_stores_scan_with_region_witness:
  "generated_public_ids example_db \<and> assigned_keys example_db \<and>
   api_scan example_db 1700000000 example_request =
     (JSONResponse [(''ok'', JBool True), (''scan_id'', JInt 1)] 200,
      example_db\<lparr>scan_events := [example_scan 1700000000 (Some 1)]\<rparr>,
      [SelectPharmacy ''abc123'', GetRegion 1, InsertScanEvent])"
  using api_scan_stores_scan_with_region
    [of example_db example_request "''abc123''" example_pharmacy 1 example_region 1700000000]
  by (simp add: example_defs session_get_Region_def next_id_def generated_public_ids_def
      assigned_keys_def)

text \<open>
  C2. For every request whose \<open>pharmacy_public_id\<close> is missing or empty, \<open>api_scan\<close>
  answers 400 with the body \<open>{"ok": false, "error": "Missing pharmacy_public_id"}\<close>,
  sends no statement to the store (so no pharmacy lookup precedes the answer) and
  leaves the store as it was (so no scan event is created).
\<close>

theorem api_scan_missing_field:
  assumes "pharmacy_public_id (body request) = None
           \<or> pharmacy_public_id (body request) = Some []"
  shows "api_scan db utcnow request =
           (JSONResponse [(''ok'', JBool False),
                          (''error'', JStr ''Missing pharmacy_public_id'')] 400,
            db, [])"
  using assms by (auto simp: api_scan_def Let_def)

text \<open>The empty id is refused even in a store where a pharmacy has the empty public id.\<close>

theorem api_scan_missing_field_witness:
  "pharmacy_public_id (body blank_request) = Some [] \<and>
   api_scan blank_db 1700000000 blank_request =
     (JSONResponse [(''ok'', JBool False), (''error'', JStr ''Missing pharmacy_public_id'')] 400,
      blank_db, [])"
  using api_scan_missing_field [of blank_request blank_db 1700000000]
  by (simp add: variant_defs example_defs)

text \<open>
  C3 (as amended). For every non-empty \<open>pharmacy_public_id\<close> value that is the public id
  of no pharmacy in the store, \<open>api_scan\<close> answers 400 with \<open>Unknown pharmacy\<close> after the
  one lookup, and the store is unchanged: no scan event is created.
\<close>

theorem api_scan_unknown_pharmacy:
  assumes "pharmacy_public_id (body request) = Some public_id"
    and "public_id \<noteq> []"
    and "public_id \<notin> set (map Pharmacy_public_id (pharmacies db))"
  shows "api_scan db utcnow request =
           (JSONResponse [(''ok'', JBool False), (''error'', JStr ''Unknown pharmacy'')] 400,
            db, [SelectPharmacy public_id])"
proof -
  have "find (\<lambda>p. Pharmacy_public_id p = public_id) (pharmacies db) = None"
    using assms(3) by (auto simp: find_None_iff)
  with assms(1,2) show ?thesis
    by (simp add: api_scan_def)
qed

theorem api_scan_unknown_pharmacy_witness:
  "api_scan example_db 1700000000 stray_request =
     (JSONResponse [(''ok'', JBool False), (''error'', JStr ''Unknown pharmacy'')] 400,
      example_db, [SelectPharmacy ''zzz999''])"
  using api_scan_unknown_pharmacy [of stray_request "''zzz999''" example_db 1700000000]
  by (simp add: variant_defs example_defs)

text \<open>
  C3 as stated fails for the empty string: it is the public id of no pharmacy of the
  example store, and the answer is \<open>Missing pharmacy_public_id\<close>, not \<open>Unknown pharmacy\<close>.
\<close>

theorem api_scan_unmatched_empty_counterexample:
  "pharmacy_public_id (body blank_request) = Some [] \<and>
   [] \<notin> set (map Pharmacy_public_id (pharmacies example_db)) \<and>
   fst (api_scan example_db 1700000000 blank_request) =
     JSONResponse [(''ok'', JBool False), (''error'', JStr ''Missing pharmacy_public_id'')] 400 \<and>
   fst (api_scan example_db 1700000000 blank_request) \<noteq>
     JSONResponse [(''ok'', JBool False), (''error'', JStr ''Unknown pharmacy'')] 400"
  by (simp add: variant_defs example_defs api_scan_def)

text \<open>
  C7. For every scan request that names an existing pharmacy, if the pharmacy's region
  reference is set but no region row has that key, or if the pharmacy has no region
  reference, \<open>api_scan\<close> does not fail: it answers 200 with the new event's id and
  stores the scan event with a null region id. The store is one whose public ids are
  generated.
\<close>

theorem api_scan_region_absent:
  assumes "generated_public_ids db"
    and "pharmacy_public_id (body request) = Some public_id"
    and "find (\<lambda>p. Pharmacy_public_id p = public_id) (pharmacies db) = Some pharmacy"
    and "Pharmacy_region_id pharmacy = None
         \<or> (\<exists>rid. Pharmacy_region_id pharmacy = Some rid \<and> session_get_Region db rid = None)"
  shows "fst (api_scan db utcnow request) =
           JSONResponse [(''ok'', JBool True),
                         (''scan_id'', JInt (next_id (map ScanEvent_id (scan_events db))))] 200 \<and>
         fst (snd (api_scan db utcnow request)) =
           db\<lparr>scan_events := scan_events db @
               [\<lparr> ScanEvent_id = next_id (map ScanEvent_id (scan_events db)),
                  ScanEvent_scanned_at = utcnow,
                  ScanEvent_pharmacy_id = Pharmacy_id pharmacy,
                  ScanEvent_region_id = None,
                  ScanEvent_latitude = latitude (body request),
                  ScanEvent_longitude = longitude (body request),
                  ScanEvent_raw_qr = raw_qr (body request),
                  ScanEvent_user_agent = map_of (headers request) ''user-agent'',
                  ScanEvent_ip_address = map_option host (client request) \<rparr>]\<rparr>"
proof -
  from assms(3) have "pharmacy \<in> set (pharmacies db) \<and> Pharmacy_public_id pharmacy = public_id"
    by (rule find_Some_mem)
  with assms(1) have "public_id \<noteq> []"
    by (auto simp: generated_public_ids_def)
  with assms(2-4) show ?thesis
    by (auto simp: api_scan_def Let_def)
qed

text \<open>Both cases: a reference to the missing region 42, and no reference.\<close>

theorem api_scan_region_absent_witness:
  "generated_public_ids orphan_db \<and>
   Pharmacy_region_id orphan_pharmacy = Some 42 \<and>
   session_get_Region orphan_db 42 = None \<and>
   fst (api_scan orphan_db 1700000000 example_request) =
     JSONResponse [(''ok'', JBool True), (''scan_id'', JInt 1)] 200 \<and>
   fst (snd (api_scan orphan_db 1700000000 example_request)) =
     orphan_db\<lparr>scan_events := [example_scan 1700000000 None]\<rparr> \<and>
   generated_public_ids unlinked_db \<and>
   Pharmacy_region_id unlinked_pharmacy = None \<and>
   fst (api_scan unlinked_db 1700000000 example_request) =
     JSONResponse [(''ok'', JBool True), (''scan_id'', JInt 1)] 200 \<and>
   fst (snd (api_scan unlinked_db 1700000000 example_request)) =
     unlinked_db\<lparr>scan_events := [example_scan 1700000000 None]\<rparr>"
  using api_scan_region_absent
          [of orphan_db example_request "''abc123''" orphan_pharmacy 1700000000]
        api_scan_region_absent
          [of unlinked_db example_request "''abc123''" unlinked_pharmacy 1700000000]
  by (simp add: variant_defs example_defs session_get_Region_def next_id_def
      generated_public_ids_def)

text \<open>
  C10. \<open>api_scan\<close> never consults \<open>is_active\<close>: on a store whose pharmacies and regions
  carry any \<open>is_active\<close> flags at all, it gives the same response, sends the same
  statements and inserts the same scan event as on the store with other flags, and the
  flags stay as they were. With \<open>db\<close> the store whose flags are all true, a scan of an
  inactive pharmacy, or of a pharmacy in an inactive region, succeeds exactly as for the
  active ones.
\<close>

theorem api_scan_ignores_is_active:
  "api_scan (with_is_active f g db) utcnow request =
     (case api_scan db utcnow request of
        (resp, db', calls) \<Rightarrow> (resp, with_is_active f g db', calls))"
proof -
  have ph: "find (\<lambda>p. Pharmacy_public_id p = s)
              (map (\<lambda>p. p\<lparr>Pharmacy_is_active := f p\<rparr>) (pharmacies db)) =
            map_option (\<lambda>p. p\<lparr>Pharmacy_is_active := f p\<rparr>)
              (find (\<lambda>p. Pharmacy_public_id p = s) (pharmacies db))" for s
    by (rule find_map_same) simp
  have rg: "find (\<lambda>r. Region_id r = i)
              (map (\<lambda>r. r\<lparr>Region_is_active := g r\<rparr>) (regions db)) =
            map_option (\<lambda>r. r\<lparr>Region_is_active := g r\<rparr>)
              (find (\<lambda>r. Region_id r = i) (regions db))" for i
    by (rule find_map_same) simp
  show ?thesis
    by (simp add: api_scan_def with_is_active_def session_get_Region_def Let_def ph rg
        option.map_comp comp_def split: option.splits)
qed

text \<open>The example scan with the pharmacy and its region both inactive.\<close>

theorem api_scan_ignores_is_active_witness:
  "pharmacies (with_is_active (\<lambda>p. False) (\<lambda>r. False) example_db) =
     [example_pharmacy\<lparr>Pharmacy_is_active := False\<rparr>] \<and>
   regions (with_is_active (\<lambda>p. False) (\<lambda>r. False) example_db) =
     [example_region\<lparr>Region_is_active := False\<rparr>] \<and>
   api_scan (with_is_active (\<lambda>p. False) (\<lambda>r. False) example_db) 1700000000 example_request =
     (JSONResponse [(''ok'', JBool True), (''scan_id'', JInt 1)] 200,
      with_is_active (\<lambda>p. False) (\<lambda>r. False)
        (example_db\<lparr>scan_events := [example_scan 1700000000 (Some 1)]\<rparr>),
      [SelectPharmacy ''abc123'', GetRegion 1, InsertScanEvent])"
  using api_scan_ignores_is_active
    [of "\<lambda>p. False" "\<lambda>r. False" example_db 1700000000 example_request]
  by (simp add: example_defs api_scan_def session_get_Region_def next_id_def with_is_active_def)

section \<open>Admin authentication\<close>

text \<open>
  C4. For every login and password such that no user has that login, or the user exists
  and the password does not verify, or the user exists and the password verifies and
  \<open>is_superuser\<close> is false, \<open>admin_login\<close> gives one and the same result: the login form
  with the error \<open>Invalid credentials\<close> and status 400, the session untouched, after the
  one lookup by login. The three causes cannot be told apart from the result.
\<close>

theorem admin_login_invalid_credentials:
  assumes "find (\<lambda>u. User_login u = login) (users db) = None
           \<or> (\<exists>user. find (\<lambda>u. User_login u = login) (users db) = Some user
                  \<and> \<not> pwd_context_verify password (User_password_hash user))
           \<or> (\<exists>user. find (\<lambda>u. User_login u = login) (users db) = Some user
                  \<and> pwd_context_verify password (User_password_hash user)
                  \<and> \<not> User_is_superuser user)"
  shows "admin_login pwd_context_verify db sess login password =
           (TemplateResponse ''admin_login.html'' (Some ''Invalid credentials'') 400,
            sess, [SelectUser login])"
  using assms by (auto simp: admin_login_def verify_password_def)

text \<open>One instance per cause: an unknown login, a wrong password, a user who is no superuser.\<close>

theorem admin_login_invalid_credentials_witness:
  "admin_login example_verify example_db Map.empty ''nobody'' ''secret'' =
     (TemplateResponse ''admin_login.html'' (Some ''Invalid credentials'') 400,
      Map.empty, [SelectUser ''nobody'']) \<and>
   admin_login example_verify example_db Map.empty ''admin'' ''guess'' =
     (TemplateResponse ''admin_login.html'' (Some ''Invalid credentials'') 400,
      Map.empty, [SelectUser ''admin'']) \<and>
   admin_login example_verify plain_user_db Map.empty ''admin'' ''secret'' =
     (TemplateResponse ''admin_login.html'' (Some ''Invalid credentials'') 400,
      Map.empty, [SelectUser ''admin''])"
  using admin_login_invalid_credentials
          [of "''nobody''" example_db example_verify "''secret''" Map.empty]
        admin_login_invalid_credentials
          [of "''admin''" example_db example_verify "''guess''" Map.empty]
        admin_login_invalid_credentials
          [of "''admin''" plain_user_db example_verify "''secret''" Map.empty]
  by (simp add: variant_defs example_defs)

text \<open>
  C5. On a store whose keys the database assigned, \<open>get_current_admin\<close> raises
  \<open>HTTPException(401)\<close> if and only if the session contains no user id, or the user it
  refers to does not exist, or is inactive, or is not a superuser; in every other case
  it returns that user. (The test \<open>not user_id\<close> also refuses the id 0, which refers to
  no user of such a store.)
\<close>

theorem get_current_admin_unauthenticated_iff:
  assumes "assigned_keys db"
  shows "(get_current_admin db sess = Inl (HTTPException 401) \<longleftrightarrow>
            sess ''user_id'' = None
            \<or> (\<exists>uid. sess ''user_id'' = Some uid \<and>
                  (session_get_User db uid = None
                   \<or> (\<exists>user. session_get_User db uid = Some user \<and>
                         (\<not> User_is_active user \<or> \<not> User_is_superuser user))))) \<and>
         (\<forall>uid user. sess ''user_id'' = Some uid \<longrightarrow> session_get_User db uid = Some user
            \<longrightarrow> User_is_active user \<longrightarrow> User_is_superuser user
            \<longrightarrow> get_current_admin db sess = Inr user)"
  using session_get_User_zero [OF assms]
  by (auto simp: get_current_admin_def split: option.splits if_splits)

text \<open>
  One session that is accepted, and one instance per cause of refusal: no id in the
  session, no such user, an inactive user, a user who is no superuser.
\<close>

theorem get_current_admin_unauthenticated_iff_witness:
  "assigned_keys example_db \<and>
   get_current_admin example_db [''user_id'' \<mapsto> 3] = Inr example_admin \<and>
   get_current_admin example_db Map.empty = Inl (HTTPException 401) \<and>
   get_current_admin absent_user_db [''user_id'' \<mapsto> 3] = Inl (HTTPException 401) \<and>
   get_current_admin inactive_db [''user_id'' \<mapsto> 3] = Inl (HTTPException 401) \<and>
   get_current_admin plain_user_db [''user_id'' \<mapsto> 3] = Inl (HTTPException 401)"
proof -
  have k: "assigned_keys example_db" "assigned_keys absent_user_db"
    "assigned_keys inactive_db" "assigned_keys plain_user_db"
    by (simp_all add: assigned_keys_def variant_defs example_defs absent_user_db_def)
  have found: "session_get_User example_db 3 = Some example_admin"
    "session_get_User absent_user_db 3 = None"
    "session_get_User inactive_db 3 = Some inactive_admin"
    "session_get_User plain_user_db 3 = Some (example_admin\<lparr>User_is_superuser := False\<rparr>)"
    by (simp_all add: session_get_User_def variant_defs example_defs absent_user_db_def)
  have flags: "User_is_active example_admin" "User_is_superuser example_admin"
    "\<not> User_is_active inactive_admin"
    "\<not> User_is_superuser (example_admin\<lparr>User_is_superuser := False\<rparr>)"
    by (simp_all add: variant_defs example_defs)
  note accepted = get_current_admin_unauthenticated_iff
    [OF k(1), of "[''user_id'' \<mapsto> 3]", THEN conjunct2, rule_format, of 3 example_admin]
  have a: "get_current_admin example_db [''user_id'' \<mapsto> 3] = Inr example_admin"
    using accepted found(1) flags(1,2) by simp
  have b: "get_current_admin example_db Map.empty = Inl (HTTPException 401)"
    using get_current_admin_unauthenticated_iff [OF k(1), of Map.empty, THEN conjunct1]
    by simp
  have c: "get_current_admin absent_user_db [''user_id'' \<mapsto> 3] = Inl (HTTPException 401)"
    using get_current_admin_unauthenticated_iff
            [OF k(2), of "[''user_id'' \<mapsto> 3]", THEN conjunct1] found(2)
    by simp
  have d: "get_current_admin inactive_db [''user_id'' \<mapsto> 3] = Inl (HTTPException 401)"
    using get_current_admin_unauthenticated_iff
            [OF k(3), of "[''user_id'' \<mapsto> 3]", THEN conjunct1] found(3) flags(3)
    by simp
  have e: "get_current_admin plain_user_db [''user_id'' \<mapsto> 3] = Inl (HTTPException 401)"
    using get_current_admin_unauthenticated_iff
            [OF k(4), of "[''user_id'' \<mapsto> 3]", THEN conjunct1] found(4) flags(4)
    by simp
  from k(1) a b c d e show ?thesis by simp
qed

text \<open>
  C6. \<open>admin_logout\<close> always answers with the redirect to the login form (it has no
  error result) and leaves the empty session, whatever the session held; and
  \<open>get_current_admin\<close> on the session that \<open>admin_logout\<close> leaves raises
  \<open>HTTPException(401)\<close>, for every store.
\<close>

theorem admin_logout_unauthenticated:
  "admin_logout sess = (RedirectResponse ''/admin/login'' 303, Map.empty) \<and>
   get_current_admin db (snd (admin_logout sess)) = Inl (HTTPException 401)"
  by (simp add: admin_logout_def get_current_admin_def)

text \<open>A session that authenticates the example administrator no longer does after logout.\<close>

theorem admin_logout_unauthenticated_witness:
  "get_current_admin example_db [''user_id'' \<mapsto> 3] = Inr example_admin \<and>
   admin_logout [''user_id'' \<mapsto> 3] = (RedirectResponse ''/admin/login'' 303, Map.empty) \<and>
   get_current_admin example_db (snd (admin_logout [''user_id'' \<mapsto> 3])) =
     Inl (HTTPException 401)"
  using admin_logout_unauthenticated [of "[''user_id'' \<mapsto> 3]" example_db]
  by (simp add: example_defs get_current_admin_def session_get_User_def)

text \<open>
  C9. \<open>admin_login\<close> never consults \<open>is_active\<close>: for every user found by the login whose
  password verifies and who is a superuser but is not active, \<open>admin_login\<close> succeeds
  with the redirect to \<open>/admin\<close> and stores the user's id in the session; on that session
  \<open>get_current_admin\<close>, which loads the user by that id (a primary key) and checks
  \<open>is_active\<close>, raises \<open>HTTPException(401)\<close>.
\<close>

theorem admin_login_ignores_is_active:
  assumes "find (\<lambda>u. User_login u = login) (users db) = Some user"
    and "pwd_context_verify password (User_password_hash user)"
    and "User_is_superuser user"
    and "\<not> User_is_active user"
    and "distinct (map User_id (users db))"
  shows "admin_login pwd_context_verify db sess login password =
           (RedirectResponse ''/admin'' 303, sess(''user_id'' \<mapsto> User_id user),
            [SelectUser login]) \<and>
         get_current_admin db (sess(''user_id'' \<mapsto> User_id user)) = Inl (HTTPException 401)"
proof -
  from assms(1) have "user \<in> set (users db)"
    by (auto simp: find_Some_iff in_set_conv_nth)
  with assms(5) have "session_get_User db (User_id user) = Some user"
    unfolding session_get_User_def by (rule find_primary_key)
  with assms(1-4) show ?thesis
    by (simp add: admin_login_def verify_password_def get_current_admin_def)
qed

theorem admin_login_ignores_is_active_witness:
  "admin_login example_verify inactive_db Map.empty ''admin'' ''secret'' =
     (RedirectResponse ''/admin'' 303, [''user_id'' \<mapsto> 3], [SelectUser ''admin'']) \<and>
   get_current_admin inactive_db [''user_id'' \<mapsto> 3] = Inl (HTTPException 401)"
  using admin_login_ignores_is_active
    [of "''admin''" inactive_db inactive_admin example_verify "''secret''" Map.empty]
  by (simp add: variant_defs example_defs)

section \<open>Writes to the store\<close>

text \<open>
  C8. No route modifies an existing row. Whatever the request (the scanner page, a scan,
  the login form, a login, a logout), the users, regions and pharmacies after it are
  the rows before it, public ids included, and the scan events are either unchanged or
  the old rows followed by one new row whose key none of the old rows has.
\<close>

theorem route_only_inserts_scan_event:
  assumes "route v utcnow req (db, sess) = (resp, db', sess')"
  shows "users db' = users db \<and> regions db' = regions db \<and> pharmacies db' = pharmacies db \<and>
         (scan_events db' = scan_events db \<or>
          (\<exists>scan. scan_events db' = scan_events db @ [scan] \<and>
                  ScanEvent_id scan \<notin> set (map ScanEvent_id (scan_events db))))"
proof (cases req)
  case (POST_api_scan request)
  obtain r d c where eq: "api_scan db utcnow request = (r, d, c)"
    by (cases "api_scan db utcnow request") auto
  with assms POST_api_scan have "d = db'" by simp
  with api_scan_frame [OF eq] show ?thesis by simp
next
  case GET_root
  with assms show ?thesis by simp
next
  case GET_admin_login
  with assms show ?thesis by simp
next
  case (POST_admin_login login password)
  with assms show ?thesis by (auto split: prod.splits)
next
  case GET_admin_logout
  with assms show ?thesis by (auto split: prod.splits)
qed

text \<open>The example scan through the router: one row is added, the other tables stay.\<close>

theorem route_only_inserts_scan_event_witness:
  "route example_verify 1700000000 (POST_api_scan example_request) (example_db, Map.empty) =
     (JSONResponse [(''ok'', JBool True), (''scan_id'', JInt 1)] 200,
      example_db\<lparr>scan_events := [example_scan 1700000000 (Some 1)]\<rparr>, Map.empty) \<and>
   users (example_db\<lparr>scan_events := [example_scan 1700000000 (Some 1)]\<rparr>) = users example_db \<and>
   regions (example_db\<lparr>scan_events := [example_scan 1700000000 (Some 1)]\<rparr>) = regions example_db \<and>
   pharmacies (example_db\<lparr>scan_events := [example_scan 1700000000 (Some 1)]\<rparr>) =
     pharmacies example_db \<and>
   scan_events (example_db\<lparr>scan_events := [example_scan 1700000000 (Some 1)]\<rparr>) =
     scan_events example_db @ [example_scan 1700000000 (Some 1)]"
  using route_only_inserts_scan_event
    [of example_verify 1700000000 "POST_api_scan example_request" example_db Map.empty
        "JSONResponse [(''ok'', JBool True), (''scan_id'', JInt 1)] 200"
        "example_db\<lparr>scan_events := [example_scan 1700000000 (Some 1)]\<rparr>" Map.empty]
  by (simp add: example_defs api_scan_def session_get_Region_def next_id_def)

end
